theory Spec2Isabelle
  imports Complex_Main "HOL-Library.Char_ord" "HOL-Library.List_Lexorder" "HOL-Library.Sublist"
begin

section \<open>ObjectAttributesManager: handle classification and registration\<close>

text \<open>
  A shallow embedding of \<^verbatim>\<open>src/esp/metadata/managers/ObjectAttributesManager.cpp\<close>.
  Every member function of that file is a HOL function of the same name. The manager
  object is a record that is passed in and returned updated; a template
  (\<^verbatim>\<open>ObjectAttributes::ptr\<close>) is a record value that a function returns in its
  mutated form, and the null pointer is \<open>None\<close>. Dereferencing a null pointer is the
  fault \<open>NullPointerDereference\<close>.
\<close>

subsection \<open>Data\<close>

text \<open>
  Numbers (\<^verbatim>\<open>double\<close>, the components of \<^verbatim>\<open>Magnum::Vector3\<close>) are reals: the file stores
  and copies them and does no arithmetic on them.
\<close>

type_synonym vec3 = "real \<times> real \<times> real"

text \<open>
  Modelled from the spec: the enumeration \<^verbatim>\<open>assets::AssetType\<close> is declared in the asset
  headers, which are not among the sources. Of its enumerators the file stores two,
  \<^verbatim>\<open>static_cast<int>(AssetType::PRIMITIVE)\<close> and \<^verbatim>\<open>AssetType::UNKNOWN\<close>; the spec (4.2)
  names them Primitive and Unknown.
\<close>

datatype AssetType = UNKNOWN | PRIMITIVE

text \<open>
  Modelled from the spec: the class \<^verbatim>\<open>ObjectAttributes\<close> is declared in the attributes
  headers, which are not among the sources. The record has the fields that the file
  reads or writes through the getters and setters it calls; they are the attributes of
  the spec's template (3), with \<open>isDirty\<close> the dirty flag that \<^verbatim>\<open>setIsClean\<close> clears.
\<close>

record ObjectAttributes =
  handle :: string
  ID :: int
  fileDirectory :: string
  renderAssetHandle :: string
  collisionAssetHandle :: string
  renderAssetType :: AssetType
  collisionAssetType :: AssetType
  renderAssetIsPrimitive :: bool
  collisionAssetIsPrimitive :: bool
  useMeshCollision :: bool
  margin :: real
  scale :: vec3
  orientUp :: vec3
  orientFront :: vec3
  mass :: real
  boundingBoxCollisions :: bool
  joinCollisionMeshes :: bool
  inertia :: vec3
  COM :: vec3
  computeCOMFromShape :: bool
  isDirty :: bool

text \<open>
  Modelled from the spec: \<^verbatim>\<open>io::JsonDocument\<close> is declared in the JSON helpers, which are
  not among the sources. A configuration document is seen through the typed lookups the
  file performs on it (the spec's table of recognised fields, 6): for each of the five
  object-specific keys \<^verbatim>\<open>mass\<close>, \<^verbatim>\<open>use bounding box for collision\<close>,
  \<^verbatim>\<open>join collision meshes\<close>, \<^verbatim>\<open>inertia\<close> and \<^verbatim>\<open>COM\<close>, the value of the field's type that
  the document holds under that key, or \<open>None\<close> when the key is absent.
\<close>

record JsonDocument =
  json_mass :: "real option"
  json_use_bounding_box_for_collision :: "bool option"
  json_join_collision_meshes :: "bool option"
  json_inertia :: "vec3 option"
  json_COM :: "vec3 option"

text \<open>
  What the manager consumes from its collaborators, none of which this file defines;
  each is a parameter of the model. The primitive-attributes manager
  \<^verbatim>\<open>assetAttributesMgr_\<close>: the handles it holds and the list
  \<^verbatim>\<open>getUndeletableObjectHandles()\<close>. The file system as Corrade's \<^verbatim>\<open>Directory\<close> reports
  it: the paths for which \<^verbatim>\<open>exists\<close> holds, those for which \<^verbatim>\<open>isDirectory\<close> holds, and
  the entries of a directory. The function \<^verbatim>\<open>io::changeExtension\<close>. The JSON loader:
  the document read from a file, or none when reading fails. The base-class helper
  \<^verbatim>\<open>createObjectAttributesFromJson\<close>, which builds a template from a document's generic
  fields. The value \<^verbatim>\<open>ObjectAttributes::create\<close> constructs, before its handle is set.
  The directory that \<^verbatim>\<open>setFileDirectoryFromHandle\<close> derives from a handle.
\<close>

record Collaborators =
  primitiveHandles :: "string set"
  undeletablePrimitiveHandles :: "string list"
  existingPaths :: "string set"
  directories :: "string set"
  directoryEntries :: "string \<Rightarrow> string list"
  changeExtension :: "string \<Rightarrow> string \<Rightarrow> string"
  readJson :: "string \<Rightarrow> JsonDocument option"
  createObjectAttributesFromJson :: "string \<Rightarrow> JsonDocument \<Rightarrow> ObjectAttributes"
  constructedAttributes :: ObjectAttributes
  directoryOfHandle :: "string \<Rightarrow> string"

text \<open>
  The manager. Its members that the file names are the two origin-partitioned maps
  \<^verbatim>\<open>physicsSynthObjTmpltLibByID_\<close> and \<^verbatim>\<open>physicsFileObjTmpltLibByID_\<close>
  (\<^verbatim>\<open>std::map<int, std::string>\<close>) and the set \<^verbatim>\<open>undeletableObjectNames_\<close>.
  Modelled from the spec: the primary library belongs to the base class, which is not
  among the sources; the spec (3) has it map an id to a template and its handle, and
  \<open>nextID\<close> counts the ids assigned so far.
\<close>

record ObjectAttributesManager =
  objectLibrary :: "nat \<rightharpoonup> string \<times> ObjectAttributes"
  nextID :: nat
  physicsSynthObjTmpltLibByID :: "int \<rightharpoonup> string"
  physicsFileObjTmpltLibByID :: "int \<rightharpoonup> string"
  undeletableObjectNames :: "string set"

datatype fault = NullPointerDereference

text \<open>
  Modelled from the spec: the constant \<^verbatim>\<open>ID_UNDEFINED\<close> is declared in the core headers,
  which are not among the sources. The spec calls it the undefined sentinel and gives no
  value; it is taken to be \<open>- 1\<close>. The proofs use only that it is negative, so that no
  id counted from 0 equals it.
\<close>

definition ID_UNDEFINED :: int where
  "ID_UNDEFINED = - 1"

subsection \<open>String and container primitives\<close>

text \<open>\<^verbatim>\<open>Corrade::Utility::String::lowercase\<close>: the ASCII letters A to Z are mapped to a to z.\<close>

definition lowercase_char :: "char \<Rightarrow> char" where
  "lowercase_char c =
     (if CHR ''A'' \<le> c \<and> c \<le> CHR ''Z'' then char_of (of_char c + (32 :: nat)) else c)"

definition lowercase :: "string \<Rightarrow> string" where
  "lowercase s = map lowercase_char s"

text \<open>\<^verbatim>\<open>std::string::find\<close>: the first position at which the pattern occurs, \<open>None\<close> for
  \<^verbatim>\<open>npos\<close>.\<close>

fun find_str :: "string \<Rightarrow> string \<Rightarrow> nat option" where
  "find_str [] pat = (if pat = [] then Some 0 else None)"
| "find_str (c # cs) pat =
     (if prefix pat (c # cs) then Some 0 else map_option Suc (find_str cs pat))"

text \<open>\<^verbatim>\<open>Corrade::Utility::String::endsWith\<close>.\<close>

definition endsWith :: "string \<Rightarrow> string \<Rightarrow> bool" where
  "endsWith s suf = (length suf \<le> length s \<and> drop (length s - length suf) s = suf)"

text \<open>\<^verbatim>\<open>std::map::emplace\<close>: the entry is inserted only when the key is not yet present.\<close>

definition emplace :: "('k \<rightharpoonup> 'v) \<Rightarrow> 'k \<Rightarrow> 'v \<Rightarrow> ('k \<rightharpoonup> 'v)" where
  "emplace m k v = (case m k of None \<Rightarrow> m(k \<mapsto> v) | Some old \<Rightarrow> m)"

subsection \<open>The base class\<close>

text \<open>
  Modelled from the spec: \<^verbatim>\<open>isValidPrimitiveAttributes\<close> is declared in the header,
  which is not among the sources. The spec (4.1 (a), 6): does a primitive-attributes
  definition exist for this exact handle, \<^verbatim>\<open>PrimitiveAttributesRegistry.exists(handle)\<close>.
\<close>

definition isValidPrimitiveAttributes :: "Collaborators \<Rightarrow> string \<Rightarrow> bool" where
  "isValidPrimitiveAttributes env h = (h \<in> primitiveHandles env)"

text \<open>
  Modelled from the spec: \<^verbatim>\<open>isValidFileName\<close> belongs to the base class, which is not
  among the sources. The spec (4.3, 6): the handle names an existing file,
  \<^verbatim>\<open>FileSystemProbe.isFile(path)\<close>.
\<close>

definition isValidFileName :: "Collaborators \<Rightarrow> string \<Rightarrow> bool" where
  "isValidFileName env h = (h \<in> existingPaths env)"

text \<open>
  Modelled from the spec: \<^verbatim>\<open>addObjectToLibrary\<close> belongs to the base class, which is
  not among the sources. The spec (3, 4.3 step 4, 6): the template is committed to the
  primary map and obtains a newly assigned stable id; finalize assigns the id to the
  template; a handle is unique among registered templates and a later entry overwrites
  an earlier one of the same handle. Assigned ids are counted from 0, so none of them is
  the sentinel.
\<close>

definition getObjectIDByHandle :: "ObjectAttributesManager \<Rightarrow> string \<Rightarrow> nat option" where
  \<comment> \<open>Modelled from the spec: the id under which a handle is registered, if it is.\<close>
  "getObjectIDByHandle mgr h =
     find (\<lambda>i. case objectLibrary mgr i of None \<Rightarrow> False | Some e \<Rightarrow> fst e = h)
       [0 ..< nextID mgr]"

definition addObjectToLibrary ::
  "ObjectAttributesManager \<Rightarrow> ObjectAttributes \<Rightarrow> string
     \<Rightarrow> int \<times> ObjectAttributes \<times> ObjectAttributesManager" where
  "addObjectToLibrary mgr t h =
     (case getObjectIDByHandle mgr h of
        Some i \<Rightarrow>
          (let t' = t\<lparr>ID := int i\<rparr>
           in (int i, t', mgr\<lparr>objectLibrary := (objectLibrary mgr)(i \<mapsto> (h, t'))\<rparr>))
      | None \<Rightarrow>
          (let i = nextID mgr; t' = t\<lparr>ID := int i\<rparr>
           in (int i, t',
               mgr\<lparr>objectLibrary := (objectLibrary mgr)(i \<mapsto> (h, t')), nextID := Suc i\<rparr>)))"

subsection \<open>registerObjectFinalize\<close>

text \<open>
  Lines 209 to 287. The result is the returned id, the template as the caller's pointer
  sees it afterwards, and the manager. \<open>mapToUse\<close> is \<open>True\<close> for
  \<^verbatim>\<open>physicsSynthObjTmpltLibByID_\<close> and \<open>False\<close> for \<^verbatim>\<open>physicsFileObjTmpltLibByID_\<close>.
  The function is written in three parts: \<open>registerObjectFinalize\<close> itself is lines 212
  to 250, the test of the render asset handle; \<open>classifyCollisionAsset\<close> is lines 252
  to 275; \<open>commitTemplate\<close> is lines 277 to 286. The setters of the two asset handles
  mark the template dirty, which is the flag that line 278 clears.
\<close>

definition setCollisionAssetHandle :: "string \<Rightarrow> ObjectAttributes \<Rightarrow> ObjectAttributes" where
  "setCollisionAssetHandle h t = t\<lparr>collisionAssetHandle := h, isDirty := True\<rparr>"

definition setRenderAssetHandle :: "string \<Rightarrow> ObjectAttributes \<Rightarrow> ObjectAttributes" where
  "setRenderAssetHandle h t = t\<lparr>renderAssetHandle := h, isDirty := True\<rparr>"

definition classifyCollisionAsset ::
  "Collaborators \<Rightarrow> string \<Rightarrow> string \<Rightarrow> ObjectAttributes \<Rightarrow> ObjectAttributes" where
  "classifyCollisionAsset env renderAssetHandle' collisionAssetHandle' t =
     (if isValidPrimitiveAttributes env collisionAssetHandle'
      then t\<lparr>collisionAssetIsPrimitive := True\<rparr>
      else if isValidFileName env collisionAssetHandle'
      then t\<lparr>collisionAssetIsPrimitive := False\<rparr>
      else (let t1 = setCollisionAssetHandle renderAssetHandle' t
            in t1\<lparr>collisionAssetIsPrimitive := renderAssetIsPrimitive t1\<rparr>))"

definition commitTemplate ::
  "ObjectAttributesManager \<Rightarrow> bool \<Rightarrow> ObjectAttributes \<Rightarrow> string
     \<Rightarrow> int \<times> ObjectAttributes \<times> ObjectAttributesManager" where
  "commitTemplate mgr mapToUse t objectTemplateHandle =
     (let t1 = t\<lparr>isDirty := False\<rparr>;
          (objectTemplateID, t2, mgr1) = addObjectToLibrary mgr t1 objectTemplateHandle
      in (objectTemplateID, t2,
          if mapToUse
          then mgr1\<lparr>physicsSynthObjTmpltLibByID :=
                 emplace (physicsSynthObjTmpltLibByID mgr1) objectTemplateID objectTemplateHandle\<rparr>
          else mgr1\<lparr>physicsFileObjTmpltLibByID :=
                 emplace (physicsFileObjTmpltLibByID mgr1) objectTemplateID objectTemplateHandle\<rparr>))"

definition registerObjectFinalize ::
  "Collaborators \<Rightarrow> ObjectAttributesManager \<Rightarrow> ObjectAttributes \<Rightarrow> string
     \<Rightarrow> int \<times> ObjectAttributes \<times> ObjectAttributesManager" where
  "registerObjectFinalize env mgr objectTemplate objectTemplateHandle =
     (if renderAssetHandle objectTemplate = []
      then (ID_UNDEFINED, objectTemplate, mgr)
      else
        (let renderAssetHandle' = renderAssetHandle objectTemplate;
             collisionAssetHandle' = collisionAssetHandle objectTemplate
         in if isValidPrimitiveAttributes env renderAssetHandle'
            then commitTemplate mgr True
                   (classifyCollisionAsset env renderAssetHandle' collisionAssetHandle'
                      (objectTemplate\<lparr>renderAssetIsPrimitive := True\<rparr>))
                   objectTemplateHandle
            else if isValidFileName env renderAssetHandle'
            then commitTemplate mgr False
                   (classifyCollisionAsset env renderAssetHandle' collisionAssetHandle'
                      (objectTemplate\<lparr>renderAssetIsPrimitive := False\<rparr>))
                   objectTemplateHandle
            else (ID_UNDEFINED, objectTemplate, mgr)))"

subsection \<open>Registration after construction\<close>

text \<open>
  Modelled from the spec: \<^verbatim>\<open>postCreateRegister\<close> belongs to the base class, which is
  not among the sources. The spec (4.2, 7): \<^verbatim>\<open>registerTemplate=false\<close> returns the built
  value without committing it to the Registry; \<^verbatim>\<open>true\<close> additionally invokes finalize,
  under the template's own handle; a hard failure surfaces as a null result.
\<close>

definition postCreateRegister ::
  "Collaborators \<Rightarrow> ObjectAttributesManager \<Rightarrow> ObjectAttributes \<Rightarrow> bool
     \<Rightarrow> ObjectAttributes option \<times> ObjectAttributesManager" where
  "postCreateRegister env mgr attributes registerTemplate =
     (if registerTemplate
      then (let (attrID, attributes', mgr') =
                  registerObjectFinalize env mgr attributes (handle attributes)
            in if attrID = ID_UNDEFINED then (None, mgr') else (Some attributes', mgr'))
      else (Some attributes, mgr))"

subsection \<open>Template construction\<close>

text \<open>
  Lines 191 to 207. The bound setter \<^verbatim>\<open>assetTypeSetter\<close> is a function that stores the
  asset type in the template.
\<close>

definition setDefaultAssetNameBasedAttributes ::
  "Collaborators \<Rightarrow> ObjectAttributes \<Rightarrow> bool \<Rightarrow> string
     \<Rightarrow> (AssetType \<Rightarrow> ObjectAttributes \<Rightarrow> ObjectAttributes) \<Rightarrow> ObjectAttributes" where
  "setDefaultAssetNameBasedAttributes env attributes setFrame meshHandle assetTypeSetter =
     (let a1 = (if isValidPrimitiveAttributes env meshHandle
                then assetTypeSetter PRIMITIVE attributes
                else assetTypeSetter UNKNOWN attributes)
      in if setFrame then a1\<lparr>orientUp := (0, 1, 0), orientFront := (0, 0, - 1)\<rparr> else a1)"

text \<open>
  Lines 164 to 187. \<^verbatim>\<open>ObjectAttributes::create(handle)\<close> is the constructed value of the
  collaborators with its handle set; \<^verbatim>\<open>setFileDirectoryFromHandle\<close> of the base class
  stores the directory the collaborators derive from the handle.
\<close>

definition setFileDirectoryFromHandle :: "Collaborators \<Rightarrow> ObjectAttributes \<Rightarrow> ObjectAttributes" where
  "setFileDirectoryFromHandle env t = t\<lparr>fileDirectory := directoryOfHandle env (handle t)\<rparr>"

definition initNewObjectInternal :: "Collaborators \<Rightarrow> string \<Rightarrow> ObjectAttributes" where
  "initNewObjectInternal env attributesHandle =
     (let a0 = (constructedAttributes env)\<lparr>handle := attributesHandle\<rparr>;
          a1 = setFileDirectoryFromHandle env a0;
          a2 = setRenderAssetHandle attributesHandle a1;
          a3 = setCollisionAssetHandle attributesHandle a2;
          a4 = setDefaultAssetNameBasedAttributes env a3 True (renderAssetHandle a3)
                 (\<lambda>v a. a\<lparr>renderAssetType := v\<rparr>)
      in setDefaultAssetNameBasedAttributes env a4 False (collisionAssetHandle a4)
           (\<lambda>v a. a\<lparr>collisionAssetType := v\<rparr>))"

text \<open>Lines 73 to 107.\<close>

definition createPrimBasedAttributesTemplate ::
  "Collaborators \<Rightarrow> ObjectAttributesManager \<Rightarrow> string \<Rightarrow> bool
     \<Rightarrow> ObjectAttributes option \<times> ObjectAttributesManager" where
  "createPrimBasedAttributesTemplate env mgr primAttrTemplateHandle registerTemplate =
     (if isValidPrimitiveAttributes env primAttrTemplateHandle
      then (let p0 = initNewObjectInternal env primAttrTemplateHandle;
                p1 = p0\<lparr>margin := 0\<rparr>;
                p2 = p1\<lparr>scale := (1 / 10, 1 / 10, 1 / 10)\<rparr>;
                primType = PRIMITIVE;
                p3 = p2\<lparr>renderAssetType := primType\<rparr>;
                p4 = p3\<lparr>collisionAssetType := primType\<rparr>;
                p5 = p4\<lparr>useMeshCollision := False\<rparr>
            in postCreateRegister env mgr p5 registerTemplate)
      else (None, mgr))"



subsection \<open>Templates from configuration documents\<close>

text \<open>
  Modelled from the spec: \<^verbatim>\<open>io::jsonIntoSetter\<close> and \<^verbatim>\<open>io::jsonIntoConstSetter\<close> are
  defined in the JSON helpers, which are not among the sources. The spec (6, 7, 9):
  \<^verbatim>\<open>getIfPresent<T>(doc, key)\<close> gives an optional value; one generic fill-if-present
  routine applies the setter when the field is present, retains the prior value when it
  is absent, and returns presence.
\<close>

definition jsonIntoSetter ::
  "'a option \<Rightarrow> ('a \<Rightarrow> ObjectAttributes \<Rightarrow> ObjectAttributes) \<Rightarrow> ObjectAttributes
     \<Rightarrow> bool \<times> ObjectAttributes" where
  "jsonIntoSetter field setter t =
     (case field of None \<Rightarrow> (False, t) | Some val \<Rightarrow> (True, setter val t))"

text \<open>Lines 123 to 162.\<close>

definition loadFromJSONDoc :: "Collaborators \<Rightarrow> string \<Rightarrow> JsonDocument \<Rightarrow> ObjectAttributes" where
  "loadFromJSONDoc env templateName jsonConfig =
     (let o0 = createObjectAttributesFromJson env templateName jsonConfig;
          o1 = snd (jsonIntoSetter (json_mass jsonConfig) (\<lambda>v a. a\<lparr>mass := v\<rparr>) o0);
          o2 = snd (jsonIntoSetter (json_use_bounding_box_for_collision jsonConfig)
                      (\<lambda>v a. a\<lparr>boundingBoxCollisions := v\<rparr>) o1);
          o3 = snd (jsonIntoSetter (json_join_collision_meshes jsonConfig)
                      (\<lambda>v a. a\<lparr>joinCollisionMeshes := v\<rparr>) o2);
          o4 = snd (jsonIntoSetter (json_inertia jsonConfig) (\<lambda>v a. a\<lparr>inertia := v\<rparr>) o3);
          (comIsSet, o5) = jsonIntoSetter (json_COM jsonConfig) (\<lambda>v a. a\<lparr>COM := v\<rparr>) o4
      in o5\<lparr>computeCOMFromShape := \<not> comIsSet\<rparr>)"

text \<open>
  Modelled from the spec: \<^verbatim>\<open>createObjectFromFile\<close> belongs to the base class, which is
  not among the sources. The spec (4.2 step 2, 5, 7): the file is parsed and a File-based
  template is built from the document, then registered on request; a failed read
  surfaces as a build failure for that one file, a null result.
\<close>

definition createObjectFromFile ::
  "Collaborators \<Rightarrow> ObjectAttributesManager \<Rightarrow> string \<Rightarrow> bool
     \<Rightarrow> ObjectAttributes option \<times> ObjectAttributesManager" where
  "createObjectFromFile env mgr filename registerTemplate =
     (case readJson env filename of
        None \<Rightarrow> (None, mgr)
      | Some jsonConfig \<Rightarrow>
          postCreateRegister env mgr (loadFromJSONDoc env filename jsonConfig) registerTemplate)"

text \<open>
  Modelled from the spec: \<^verbatim>\<open>createDefaultObject\<close> belongs to the base class, which is
  not among the sources. The spec (4.2 steps 3 and 4): a default template is built from
  the handle by the default-template construction, then registered on request.
\<close>

definition createDefaultObject ::
  "Collaborators \<Rightarrow> ObjectAttributesManager \<Rightarrow> string \<Rightarrow> bool
     \<Rightarrow> ObjectAttributes option \<times> ObjectAttributesManager" where
  "createDefaultObject env mgr attributesTemplateHandle registerTemplate =
     postCreateRegister env mgr (initNewObjectInternal env attributesTemplateHandle)
       registerTemplate"

subsection \<open>createObject\<close>

text \<open>
  Lines 37 to 43: the local \<^verbatim>\<open>jsonAttrFileName\<close>. Lines 25 to 71: the function, which
  returns the template, the manager and the line it logs (none for a null template).
\<close>

definition JSONTypeExt :: string where
  "JSONTypeExt = ''phys_properties.json''"

definition jsonAttrFileName :: "Collaborators \<Rightarrow> string \<Rightarrow> string" where
  "jsonAttrFileName env attributesTemplateHandle =
     (let strHandle = lowercase attributesTemplateHandle
      in if find_str strHandle JSONTypeExt \<noteq> None
         then attributesTemplateHandle
         else changeExtension env attributesTemplateHandle JSONTypeExt)"

definition createObject ::
  "Collaborators \<Rightarrow> ObjectAttributesManager \<Rightarrow> string \<Rightarrow> bool
     \<Rightarrow> ObjectAttributes option \<times> ObjectAttributesManager \<times> string option" where
  "createObject env mgr attributesTemplateHandle registerTemplate =
     (let (attrs, mgr', msg) =
        (if isValidPrimitiveAttributes env attributesTemplateHandle
         then (let (a, m) = createPrimBasedAttributesTemplate env mgr attributesTemplateHandle
                              registerTemplate
               in (a, m, ''Primitive Asset ('' @ attributesTemplateHandle @ '') Based''))
         else (let fileExists = isValidFileName env attributesTemplateHandle;
                   jsonFileExists =
                     isValidFileName env (jsonAttrFileName env attributesTemplateHandle)
               in if jsonFileExists
                  then (let (a, m) = createObjectFromFile env mgr
                                       (jsonAttrFileName env attributesTemplateHandle)
                                       registerTemplate
                        in (a, m, ''JSON File (''
                                    @ jsonAttrFileName env attributesTemplateHandle
                                    @ '') Based''))
                  else (let (a, m) = createDefaultObject env mgr attributesTemplateHandle
                                       registerTemplate
                        in (a, m,
                            if fileExists
                            then ''File ('' @ attributesTemplateHandle @ '') Based''
                            else ''New default ('' @ attributesTemplateHandle @ '')''))))
      in (attrs, mgr',
          if attrs \<noteq> None
          then Some (msg @ '' object attributes created''
                       @ (if registerTemplate then '' and registered.'' else ''.''))
          else None))"

subsection \<open>Batch loading\<close>

text \<open>
  Lines 289 to 309. \<^verbatim>\<open>resIDs\<close> starts as one sentinel per filename; the loop counts
  \<open>i\<close> up to the number of filenames; \<^verbatim>\<open>tmplt->getHandle()\<close> and \<^verbatim>\<open>tmplt->getID()\<close> on a
  null \<^verbatim>\<open>tmplt\<close> are the fault.
\<close>

function loadAllLoop ::
  "Collaborators \<Rightarrow> string list \<Rightarrow> bool \<Rightarrow> nat \<Rightarrow> int list \<Rightarrow> ObjectAttributesManager
     \<Rightarrow> fault + int list \<times> ObjectAttributesManager" where
  "loadAllLoop env tmpltFilenames saveAsDefaults i resIDs mgr =
     (if i < length tmpltFilenames
      then (case createObjectFromFile env mgr (tmpltFilenames ! i) True of
              (None, mgr1) \<Rightarrow> Inl NullPointerDereference
            | (Some tmplt, mgr1) \<Rightarrow>
                loadAllLoop env tmpltFilenames saveAsDefaults (Suc i)
                  (resIDs[i := ID tmplt])
                  (if saveAsDefaults
                   then mgr1\<lparr>undeletableObjectNames :=
                          insert (handle tmplt) (undeletableObjectNames mgr1)\<rparr>
                   else mgr1))
      else Inr (resIDs, mgr))"
  by pat_completeness auto
termination
  by (relation "measure (\<lambda>(env, fs, save, i, res, mgr). length fs - i)") auto

definition loadAllFileBasedTemplates ::
  "Collaborators \<Rightarrow> ObjectAttributesManager \<Rightarrow> string list \<Rightarrow> bool
     \<Rightarrow> fault + int list \<times> ObjectAttributesManager" where
  "loadAllFileBasedTemplates env mgr tmpltFilenames saveAsDefaults =
     loadAllLoop env tmpltFilenames saveAsDefaults 0
       (replicate (length tmpltFilenames) ID_UNDEFINED) mgr"

text \<open>
  Corrade's \<^verbatim>\<open>Directory::join\<close> on a POSIX system, and \<^verbatim>\<open>Directory::list\<close> with
  \<^verbatim>\<open>Flag::SortAscending\<close>: the entries of the directory, sorted as \<^verbatim>\<open>std::string\<close>
  compares them (bytewise, a proper prefix first).
\<close>

definition Directory_join :: "string \<Rightarrow> string \<Rightarrow> string" where
  "Directory_join path filename =
     (if path = [] then filename
      else if filename \<noteq> [] \<and> hd filename = CHR ''/'' then filename
      else if last path \<noteq> CHR ''/'' then path @ ''/'' @ filename
      else path @ filename)"

definition Directory_list :: "Collaborators \<Rightarrow> string \<Rightarrow> string list" where
  "Directory_list env path = sort (directoryEntries env path)"

text \<open>
  Lines 311 to 349. \<open>objPhysPropertiesFilename\<close> is the local of that name (lines 317
  to 321), \<open>aggregatedPaths\<close> the vector \<^verbatim>\<open>paths\<close> as lines 331 to 344 fill it.
\<close>

definition objPhysPropertiesFilename :: "string \<Rightarrow> string" where
  "objPhysPropertiesFilename path =
     (if endsWith path ''.phys_properties.json'' then path
      else path @ ''.phys_properties.json'')"

definition aggregatedPaths :: "Collaborators \<Rightarrow> string \<Rightarrow> string list" where
  "aggregatedPaths env path =
     (if objPhysPropertiesFilename path \<in> existingPaths env
      then [objPhysPropertiesFilename path] else [])
     @ (if path \<in> directories env
        then filter (\<lambda>absoluteSubfilePath. endsWith absoluteSubfilePath ''.phys_properties.json'')
               (map (Directory_join path) (Directory_list env path))
        else [])"

definition loadObjectConfigs ::
  "Collaborators \<Rightarrow> ObjectAttributesManager \<Rightarrow> string \<Rightarrow> bool
     \<Rightarrow> fault + int list \<times> ObjectAttributesManager" where
  "loadObjectConfigs env mgr path saveAsDefaults =
     (let dirExists = (path \<in> directories env);
          fileExists = (objPhysPropertiesFilename path \<in> existingPaths env)
      in if \<not> dirExists \<and> \<not> fileExists
         then Inr ([], mgr)
         else loadAllFileBasedTemplates env mgr (aggregatedPaths env path) saveAsDefaults)"

subsection \<open>A small installation\<close>

text \<open>
  One primitive, one mesh file with its configuration file, and a directory holding two
  configuration files and a text file, where the mesh that \<^verbatim>\<open>a.phys_properties.json\<close>
  names as its render asset does not exist; a manager with nothing registered.
\<close>

definition exampleAttributes :: ObjectAttributes where
  "exampleAttributes =
     \<lparr>handle = [], ID = ID_UNDEFINED, fileDirectory = [], renderAssetHandle = [],
      collisionAssetHandle = [], renderAssetType = UNKNOWN, collisionAssetType = UNKNOWN,
      renderAssetIsPrimitive = False, collisionAssetIsPrimitive = False,
      useMeshCollision = True, margin = 4 / 100, scale = (1, 1, 1), orientUp = (0, 1, 0),
      orientFront = (0, 0, - 1), mass = 1, boundingBoxCollisions = False,
      joinCollisionMeshes = True, inertia = (0, 0, 0), COM = (1, 2, 3),
      computeCOMFromShape = False, isDirty = False\<rparr>"

definition exampleDocument :: JsonDocument where
  "exampleDocument =
     \<lparr>json_mass = Some (5 / 2), json_use_bounding_box_for_collision = None,
      json_join_collision_meshes = None, json_inertia = None, json_COM = Some (0, 0, 0)\<rparr>"

definition exampleEnv :: Collaborators where
  "exampleEnv =
     \<lparr>primitiveHandles = {''cubeSolid''},
      undeletablePrimitiveHandles = [''cubeSolid''],
      existingPaths = {''chair.glb'', ''chair.phys_properties.json'', ''objects'',
        ''objects/a.phys_properties.json'', ''objects/b.phys_properties.json'',
        ''objects/notes.txt''},
      directories = {''objects''},
      directoryEntries =
        (\<lambda>p. if p = ''objects''
             then [''b.phys_properties.json'', ''notes.txt'', ''a.phys_properties.json'']
             else []),
      changeExtension = (\<lambda>f e. f @ ''.'' @ e),
      readJson =
        (\<lambda>f. if f \<in> {''chair.phys_properties.json'', ''objects/a.phys_properties.json'',
                       ''objects/b.phys_properties.json''}
             then Some exampleDocument else None),
      createObjectAttributesFromJson =
        (\<lambda>f d. exampleAttributes\<lparr>handle := f,
                  renderAssetHandle :=
                    (if f = ''objects/a.phys_properties.json'' then ''objects/a.glb''
                     else ''chair.glb''),
                  collisionAssetHandle :=
                    (if f = ''objects/a.phys_properties.json'' then ''objects/a.glb''
                     else ''chair.glb'')\<rparr>),
      constructedAttributes = exampleAttributes,
      directoryOfHandle = (\<lambda>h. [])\<rparr>"

text \<open>The same installation with a mesh file \<^verbatim>\<open>table.glb\<close> added.\<close>

definition tableEnv :: Collaborators where
  "tableEnv = exampleEnv\<lparr>existingPaths := insert ''table.glb'' (existingPaths exampleEnv)\<rparr>"

text \<open>The same installation with a primitive defined under the empty handle.\<close>

definition emptyHandleEnv :: Collaborators where
  "emptyHandleEnv = exampleEnv\<lparr>primitiveHandles := insert [] (primitiveHandles exampleEnv)\<rparr>"

definition emptyManager :: ObjectAttributesManager where
  "emptyManager =
     \<lparr>objectLibrary = Map.empty, nextID = 0, physicsSynthObjTmpltLibByID = Map.empty,
      physicsFileObjTmpltLibByID = Map.empty, undeletableObjectNames = {}\<rparr>"

subsection \<open>Facts about registerObjectFinalize\<close>

lemma addObjectToLibrary_defined: "fst (addObjectToLibrary mgr t h) \<noteq> ID_UNDEFINED"
  by (simp add: addObjectToLibrary_def ID_UNDEFINED_def Let_def split: option.split)

lemma commitTemplate_defined: "fst (commitTemplate mgr b t h) \<noteq> ID_UNDEFINED"
  using addObjectToLibrary_defined [of mgr "t\<lparr>isDirty := False\<rparr>" h]
  by (auto simp add: commitTemplate_def Let_def split: prod.split)

lemma commitTemplate_template:
  "fst (snd (commitTemplate mgr b t h)) = (fst (snd (addObjectToLibrary mgr (t\<lparr>isDirty := False\<rparr>) h)))"
  by (auto simp add: commitTemplate_def Let_def split: prod.split)

lemma addObjectToLibrary_template:
  "\<exists>i. fst (snd (addObjectToLibrary mgr t h)) = t\<lparr>ID := i\<rparr>"
  by (auto simp add: addObjectToLibrary_def Let_def split: option.split)

lemma commitTemplate_fields:
  "\<exists>i. fst (snd (commitTemplate mgr b t h)) = t\<lparr>isDirty := False, ID := i\<rparr>"
  using addObjectToLibrary_template [of mgr "t\<lparr>isDirty := False\<rparr>" h]
  by (simp add: commitTemplate_template)

lemma classifyCollisionAsset_fallback:
  assumes "\<not> isValidPrimitiveAttributes env c" and "\<not> isValidFileName env c"
  shows "classifyCollisionAsset env r c t =
           t\<lparr>collisionAssetHandle := r, isDirty := True,
             collisionAssetIsPrimitive := renderAssetIsPrimitive t\<rparr>"
  using assms by (simp add: classifyCollisionAsset_def setCollisionAssetHandle_def Let_def)

lemma classifyCollisionAsset_render:
  "renderAssetHandle (classifyCollisionAsset env r c t) = renderAssetHandle t
   \<and> renderAssetIsPrimitive (classifyCollisionAsset env r c t) = renderAssetIsPrimitive t"
  by (simp add: classifyCollisionAsset_def setCollisionAssetHandle_def Let_def)

lemma registerObjectFinalize_result:
  "registerObjectFinalize env mgr t h =
     (if renderAssetHandle t = []
         \<or> (\<not> isValidPrimitiveAttributes env (renderAssetHandle t)
            \<and> \<not> isValidFileName env (renderAssetHandle t))
      then (ID_UNDEFINED, t, mgr)
      else commitTemplate mgr (isValidPrimitiveAttributes env (renderAssetHandle t))
             (classifyCollisionAsset env (renderAssetHandle t) (collisionAssetHandle t)
                (t\<lparr>renderAssetIsPrimitive :=
                     isValidPrimitiveAttributes env (renderAssetHandle t)\<rparr>)) h)"
  by (simp add: registerObjectFinalize_def Let_def)

lemma registerObjectFinalize_undefined_iff:
  "(fst (registerObjectFinalize env mgr u h) = ID_UNDEFINED)
     = (renderAssetHandle u = []
        \<or> (\<not> isValidPrimitiveAttributes env (renderAssetHandle u)
           \<and> \<not> isValidFileName env (renderAssetHandle u)))"
  by (simp add: registerObjectFinalize_result commitTemplate_defined)

text \<open>
  C1. For every template and every manager state, \<^verbatim>\<open>registerObjectFinalize\<close> returns
  \<^verbatim>\<open>ID_UNDEFINED\<close> if and only if the render asset handle is the empty string or is
  neither an existing primitive nor an existing file; and whatever collision asset handle
  the template carries, the call fails exactly when it fails for any other one.
\<close>

theorem registerObjectFinalize_fails_iff:
  "(fst (registerObjectFinalize env mgr t h) = ID_UNDEFINED)
     = (renderAssetHandle t = []
        \<or> (\<not> isValidPrimitiveAttributes env (renderAssetHandle t)
           \<and> \<not> isValidFileName env (renderAssetHandle t)))
   \<and> (fst (registerObjectFinalize env mgr (t\<lparr>collisionAssetHandle := c\<rparr>) h) = ID_UNDEFINED)
     = (fst (registerObjectFinalize env mgr t h) = ID_UNDEFINED)"
  by (simp add: registerObjectFinalize_undefined_iff)

text \<open>
  C2. When the collision asset handle of a template is neither an existing primitive nor
  an existing file and \<^verbatim>\<open>registerObjectFinalize\<close> succeeds, the template afterwards has
  its collision asset handle equal to its render asset handle (which is the one it came
  with) and its collision-is-primitive flag equal to its render-is-primitive flag.
\<close>

theorem registerObjectFinalize_collision_fallback:
  assumes "\<not> isValidPrimitiveAttributes env (collisionAssetHandle t)"
    and "\<not> isValidFileName env (collisionAssetHandle t)"
    and "registerObjectFinalize env mgr t h = (i, t', mgr')"
    and "i \<noteq> ID_UNDEFINED"
  shows "collisionAssetHandle t' = renderAssetHandle t'
         \<and> collisionAssetIsPrimitive t' = renderAssetIsPrimitive t'
         \<and> renderAssetHandle t' = renderAssetHandle t"
proof -
  let ?p = "isValidPrimitiveAttributes env (renderAssetHandle t)"
  let ?u = "classifyCollisionAsset env (renderAssetHandle t) (collisionAssetHandle t)
              (t\<lparr>renderAssetIsPrimitive := ?p\<rparr>)"
  have ok: "\<not> (renderAssetHandle t = []
        \<or> (\<not> isValidPrimitiveAttributes env (renderAssetHandle t)
           \<and> \<not> isValidFileName env (renderAssetHandle t)))"
  proof
    assume bad: "renderAssetHandle t = []
        \<or> (\<not> isValidPrimitiveAttributes env (renderAssetHandle t)
           \<and> \<not> isValidFileName env (renderAssetHandle t))"
    have "registerObjectFinalize env mgr t h = (ID_UNDEFINED, t, mgr)"
      using bad by (simp add: registerObjectFinalize_result)
    with assms(3,4) show False by simp
  qed
  have "registerObjectFinalize env mgr t h = commitTemplate mgr ?p ?u h"
    using ok by (auto simp add: registerObjectFinalize_result)
  with assms(3) have t': "t' = fst (snd (commitTemplate mgr ?p ?u h))"
    by simp
  obtain j where "t' = ?u\<lparr>isDirty := False, ID := j\<rparr>"
    using commitTemplate_fields [of mgr ?p ?u h] t' by auto
  moreover have "?u = t\<lparr>renderAssetIsPrimitive := ?p, collisionAssetHandle := renderAssetHandle t,
                         isDirty := True, collisionAssetIsPrimitive := ?p\<rparr>"
    using assms(1,2) by (simp add: classifyCollisionAsset_fallback)
  ultimately show ?thesis
    by simp
qed

theorem registerObjectFinalize_collision_fallback_witness:
  "collisionAssetHandle
     (fst (snd (registerObjectFinalize exampleEnv emptyManager
        (exampleAttributes\<lparr>renderAssetHandle := ''chair.glb'',
                             collisionAssetHandle := ''chair_convex.glb''\<rparr>) ''chair''))) = ''chair.glb''
   \<and> \<not> collisionAssetIsPrimitive
     (fst (snd (registerObjectFinalize exampleEnv emptyManager
        (exampleAttributes\<lparr>renderAssetHandle := ''chair.glb'',
                             collisionAssetHandle := ''chair_convex.glb''\<rparr>) ''chair'')))"
proof -
  let ?t = "exampleAttributes\<lparr>renderAssetHandle := ''chair.glb'',
                               collisionAssetHandle := ''chair_convex.glb''\<rparr>"
  let ?r = "registerObjectFinalize exampleEnv emptyManager ?t ''chair''"
  have a: "\<not> isValidPrimitiveAttributes exampleEnv (collisionAssetHandle ?t)"
    by (simp add: isValidPrimitiveAttributes_def exampleEnv_def)
  have b: "\<not> isValidFileName exampleEnv (collisionAssetHandle ?t)"
    by (simp add: isValidFileName_def exampleEnv_def)
  have c: "?r = (fst ?r, fst (snd ?r), snd (snd ?r))"
    by simp
  have d: "fst ?r \<noteq> ID_UNDEFINED"
    by code_simp
  have e: "\<not> renderAssetIsPrimitive (fst (snd ?r))"
    by code_simp
  from registerObjectFinalize_collision_fallback [OF a b c d] e show ?thesis
    by simp
qed

text \<open>
  C6. When \<^verbatim>\<open>registerObjectFinalize\<close> fails on the render asset handle (empty, or neither
  an existing primitive nor an existing file), it returns \<^verbatim>\<open>ID_UNDEFINED\<close> and leaves
  the template and the whole manager as they were: the primary library, its id counter,
  both origin-partitioned maps and the undeletable set.
\<close>

theorem registerObjectFinalize_failure_unchanged:
  assumes "renderAssetHandle t = []
        \<or> (\<not> isValidPrimitiveAttributes env (renderAssetHandle t)
           \<and> \<not> isValidFileName env (renderAssetHandle t))"
  shows "registerObjectFinalize env mgr t h = (ID_UNDEFINED, t, mgr)"
  using assms by (simp add: registerObjectFinalize_result)

theorem registerObjectFinalize_failure_unchanged_witness:
  "registerObjectFinalize exampleEnv emptyManager
     (exampleAttributes\<lparr>renderAssetHandle := ''table.glb''\<rparr>) ''table''
   = (ID_UNDEFINED, exampleAttributes\<lparr>renderAssetHandle := ''table.glb''\<rparr>, emptyManager)
   \<and> registerObjectFinalize exampleEnv emptyManager exampleAttributes ''table''
   = (ID_UNDEFINED, exampleAttributes, emptyManager)"
proof -
  let ?t = "exampleAttributes\<lparr>renderAssetHandle := ''table.glb''\<rparr>"
  have a: "renderAssetHandle ?t = []
        \<or> (\<not> isValidPrimitiveAttributes exampleEnv (renderAssetHandle ?t)
           \<and> \<not> isValidFileName exampleEnv (renderAssetHandle ?t))"
    by (simp add: isValidPrimitiveAttributes_def isValidFileName_def exampleEnv_def)
  have b: "renderAssetHandle exampleAttributes = []
        \<or> (\<not> isValidPrimitiveAttributes exampleEnv (renderAssetHandle exampleAttributes)
           \<and> \<not> isValidFileName exampleEnv (renderAssetHandle exampleAttributes))"
    by (simp add: exampleAttributes_def)
  from registerObjectFinalize_failure_unchanged [OF a, of emptyManager "''table''"]
    registerObjectFinalize_failure_unchanged [OF b, of emptyManager "''table''"]
  show ?thesis by simp
qed

subsection \<open>Primitive-based templates\<close>

lemma addObjectToLibrary_keeps:
  "addObjectToLibrary mgr t h = (i, t', mgr') \<Longrightarrow>
     t' = t\<lparr>ID := i\<rparr> \<and> undeletableObjectNames mgr' = undeletableObjectNames mgr"
  by (auto simp add: addObjectToLibrary_def Let_def split: option.splits)

lemma commitTemplate_keeps:
  assumes "commitTemplate mgr b t h = (i, t', mgr')"
  shows "t' = t\<lparr>isDirty := False, ID := i\<rparr>
     \<and> undeletableObjectNames mgr' = undeletableObjectNames mgr"
proof -
  obtain j u m where a: "addObjectToLibrary mgr (t\<lparr>isDirty := False\<rparr>) h = (j, u, m)"
    by (cases "addObjectToLibrary mgr (t\<lparr>isDirty := False\<rparr>) h") auto
  from addObjectToLibrary_keeps [OF a]
  have k: "u = t\<lparr>isDirty := False, ID := j\<rparr>"
    "undeletableObjectNames m = undeletableObjectNames mgr"
    by simp_all
  from assms a have "i = j" "t' = u"
    by (simp_all add: commitTemplate_def)
  moreover from assms a have "undeletableObjectNames mgr' = undeletableObjectNames m"
    by (cases b) (auto simp add: commitTemplate_def)
  ultimately show ?thesis
    using k by simp
qed

lemma classifyCollisionAsset_keeps:
  "handle (classifyCollisionAsset env r c t) = handle t
   \<and> margin (classifyCollisionAsset env r c t) = margin t
   \<and> scale (classifyCollisionAsset env r c t) = scale t
   \<and> renderAssetType (classifyCollisionAsset env r c t) = renderAssetType t
   \<and> collisionAssetType (classifyCollisionAsset env r c t) = collisionAssetType t
   \<and> useMeshCollision (classifyCollisionAsset env r c t) = useMeshCollision t"
  by (simp add: classifyCollisionAsset_def setCollisionAssetHandle_def Let_def)

lemma registerObjectFinalize_keeps:
  assumes "registerObjectFinalize env mgr t h = (i, t', mgr')"
  shows "handle t' = handle t \<and> margin t' = margin t \<and> scale t' = scale t
         \<and> renderAssetType t' = renderAssetType t
         \<and> collisionAssetType t' = collisionAssetType t
         \<and> useMeshCollision t' = useMeshCollision t
         \<and> undeletableObjectNames mgr' = undeletableObjectNames mgr"
proof (cases "renderAssetHandle t = []
        \<or> (\<not> isValidPrimitiveAttributes env (renderAssetHandle t)
           \<and> \<not> isValidFileName env (renderAssetHandle t))")
  case True
  then have "registerObjectFinalize env mgr t h = (ID_UNDEFINED, t, mgr)"
    by (simp add: registerObjectFinalize_result)
  with assms show ?thesis by simp
next
  case False
  let ?p = "isValidPrimitiveAttributes env (renderAssetHandle t)"
  let ?u = "classifyCollisionAsset env (renderAssetHandle t) (collisionAssetHandle t)
              (t\<lparr>renderAssetIsPrimitive := ?p\<rparr>)"
  from False have "registerObjectFinalize env mgr t h = commitTemplate mgr ?p ?u h"
    by (auto simp add: registerObjectFinalize_result)
  with assms have "commitTemplate mgr ?p ?u h = (i, t', mgr')"
    by simp
  from commitTemplate_keeps [OF this]
  show ?thesis
    using classifyCollisionAsset_keeps [of env "renderAssetHandle t" "collisionAssetHandle t"
              "t\<lparr>renderAssetIsPrimitive := ?p\<rparr>"]
    by simp
qed

lemma postCreateRegister_keeps:
  assumes "postCreateRegister env mgr t reg = (Some t', mgr')"
  shows "handle t' = handle t \<and> margin t' = margin t \<and> scale t' = scale t
         \<and> renderAssetType t' = renderAssetType t
         \<and> collisionAssetType t' = collisionAssetType t
         \<and> useMeshCollision t' = useMeshCollision t
         \<and> undeletableObjectNames mgr' = undeletableObjectNames mgr"
proof (cases reg)
  case False
  with assms show ?thesis by (simp add: postCreateRegister_def)
next
  case True
  obtain i u m where r: "registerObjectFinalize env mgr t (handle t) = (i, u, m)"
    by (cases "registerObjectFinalize env mgr t (handle t)") auto
  with True assms have "u = t'" "m = mgr'"
    by (auto simp add: postCreateRegister_def split: if_splits)
  with registerObjectFinalize_keeps [OF r] show ?thesis by simp
qed

lemma postCreateRegister_succeeds:
  assumes "\<not> reg \<or> (renderAssetHandle t \<noteq> []
     \<and> (isValidPrimitiveAttributes env (renderAssetHandle t)
         \<or> isValidFileName env (renderAssetHandle t)))"
  shows "\<exists>t' mgr'. postCreateRegister env mgr t reg = (Some t', mgr')"
proof (cases reg)
  case False
  then show ?thesis by (simp add: postCreateRegister_def)
next
  case True
  with assms have "fst (registerObjectFinalize env mgr t (handle t)) \<noteq> ID_UNDEFINED"
    by (auto simp add: registerObjectFinalize_undefined_iff)
  with True show ?thesis
    by (auto simp add: postCreateRegister_def split: prod.splits)
qed

lemma initNewObjectInternal_handles:
  "handle (initNewObjectInternal env h) = h
   \<and> renderAssetHandle (initNewObjectInternal env h) = h
   \<and> collisionAssetHandle (initNewObjectInternal env h) = h"
  by (simp add: initNewObjectInternal_def setDefaultAssetNameBasedAttributes_def
        setRenderAssetHandle_def setCollisionAssetHandle_def setFileDirectoryFromHandle_def
        Let_def)

lemma createPrimBasedAttributesTemplate_result:
  assumes "isValidPrimitiveAttributes env h" and "\<not> reg \<or> h \<noteq> []"
  shows "\<exists>t mgr'. createPrimBasedAttributesTemplate env mgr h reg = (Some t, mgr')
           \<and> handle t = h \<and> margin t = 0 \<and> scale t = (1 / 10, 1 / 10, 1 / 10)
           \<and> renderAssetType t = PRIMITIVE \<and> collisionAssetType t = PRIMITIVE
           \<and> \<not> useMeshCollision t
           \<and> undeletableObjectNames mgr' = undeletableObjectNames mgr"
proof -
  let ?p = "(initNewObjectInternal env h)\<lparr>margin := 0, scale := (1 / 10, 1 / 10, 1 / 10),
              renderAssetType := PRIMITIVE, collisionAssetType := PRIMITIVE,
              useMeshCollision := False\<rparr>"
  have c: "createPrimBasedAttributesTemplate env mgr h reg = postCreateRegister env mgr ?p reg"
    using assms(1) by (simp add: createPrimBasedAttributesTemplate_def Let_def)
  have r: "renderAssetHandle ?p = h"
    by (simp add: initNewObjectInternal_handles)
  have "\<not> reg \<or> (renderAssetHandle ?p \<noteq> []
     \<and> (isValidPrimitiveAttributes env (renderAssetHandle ?p)
         \<or> isValidFileName env (renderAssetHandle ?p)))"
    using assms r by auto
  from postCreateRegister_succeeds [OF this]
  obtain t mgr' where s: "postCreateRegister env mgr ?p reg = (Some t, mgr')"
    by blast
  from postCreateRegister_keeps [OF s] c s show ?thesis
    by (simp add: initNewObjectInternal_handles)
qed


lemma createPrimBasedAttributesTemplate_empty:
  assumes "isValidPrimitiveAttributes env []"
  shows "createPrimBasedAttributesTemplate env mgr [] True = (None, mgr)"
proof -
  let ?p = "(initNewObjectInternal env [])\<lparr>margin := 0, scale := (1 / 10, 1 / 10, 1 / 10),
              renderAssetType := PRIMITIVE, collisionAssetType := PRIMITIVE,
              useMeshCollision := False\<rparr>"
  have c: "createPrimBasedAttributesTemplate env mgr [] True = postCreateRegister env mgr ?p True"
    using assms by (simp add: createPrimBasedAttributesTemplate_def Let_def)
  have "renderAssetHandle ?p = []"
    by (simp add: initNewObjectInternal_handles)
  then have "registerObjectFinalize env mgr ?p (handle ?p) = (ID_UNDEFINED, ?p, mgr)"
    by (simp add: registerObjectFinalize_result)
  then have "postCreateRegister env mgr ?p True = (None, mgr)"
    by (simp add: postCreateRegister_def)
  with c show ?thesis
    by simp
qed

text \<open>
  C5. For every handle for which a primitive-attributes definition exists,
  \<^verbatim>\<open>createObject\<close> returns a template with collision margin 0, scale (0.1, 0.1, 0.1),
  render asset type and collision asset type \<^verbatim>\<open>PRIMITIVE\<close>, and mesh collision off,
  provided \<^verbatim>\<open>registerTemplate\<close> is false or the handle is not the empty string. For the
  empty handle with \<^verbatim>\<open>registerTemplate\<close> set, \<^verbatim>\<open>registerObjectFinalize\<close> refuses the
  empty render asset handle (line 212), and \<^verbatim>\<open>createObject\<close> returns null, logs nothing
  and leaves the manager as it was.
\<close>

theorem createObject_primitive:
  assumes "isValidPrimitiveAttributes env h"
  shows "(\<not> reg \<or> h \<noteq> [] \<longrightarrow>
           (\<exists>t mgr' msg. createObject env mgr h reg = (Some t, mgr', msg)
              \<and> margin t = 0 \<and> scale t = (1 / 10, 1 / 10, 1 / 10)
              \<and> renderAssetType t = PRIMITIVE \<and> collisionAssetType t = PRIMITIVE
              \<and> \<not> useMeshCollision t))
         \<and> (reg \<and> h = [] \<longrightarrow> createObject env mgr h reg = (None, mgr, None))"
proof (intro conjI impI)
  assume side: "\<not> reg \<or> h \<noteq> []"
  from createPrimBasedAttributesTemplate_result [OF assms side, of mgr]
  obtain t mgr' where "createPrimBasedAttributesTemplate env mgr h reg = (Some t, mgr')"
    and "margin t = 0" and "scale t = (1 / 10, 1 / 10, 1 / 10)"
    and "renderAssetType t = PRIMITIVE" and "collisionAssetType t = PRIMITIVE"
    and "\<not> useMeshCollision t"
    by blast
  then show "\<exists>t mgr' msg. createObject env mgr h reg = (Some t, mgr', msg)
              \<and> margin t = 0 \<and> scale t = (1 / 10, 1 / 10, 1 / 10)
              \<and> renderAssetType t = PRIMITIVE \<and> collisionAssetType t = PRIMITIVE
              \<and> \<not> useMeshCollision t"
    using assms by (simp add: createObject_def)
next
  assume e: "reg \<and> h = []"
  with assms have "createPrimBasedAttributesTemplate env mgr h reg = (None, mgr)"
    using createPrimBasedAttributesTemplate_empty [of env mgr] by simp
  then show "createObject env mgr h reg = (None, mgr, None)"
    using assms by (simp add: createObject_def)
qed

theorem createObject_primitive_witness:
  "(\<exists>t mgr' msg. createObject exampleEnv emptyManager ''cubeSolid'' True = (Some t, mgr', msg)
           \<and> margin t = 0 \<and> scale t = (1 / 10, 1 / 10, 1 / 10)
           \<and> renderAssetType t = PRIMITIVE \<and> collisionAssetType t = PRIMITIVE
           \<and> \<not> useMeshCollision t)
   \<and> (\<exists>t mgr' msg. createObject emptyHandleEnv emptyManager ''cubeSolid'' True = (Some t, mgr', msg)
           \<and> margin t = 0 \<and> scale t = (1 / 10, 1 / 10, 1 / 10)
           \<and> renderAssetType t = PRIMITIVE \<and> collisionAssetType t = PRIMITIVE
           \<and> \<not> useMeshCollision t)
   \<and> (\<exists>t mgr' msg. createObject emptyHandleEnv emptyManager [] False = (Some t, mgr', msg)
           \<and> margin t = 0 \<and> scale t = (1 / 10, 1 / 10, 1 / 10)
           \<and> renderAssetType t = PRIMITIVE \<and> collisionAssetType t = PRIMITIVE
           \<and> \<not> useMeshCollision t)
   \<and> createObject emptyHandleEnv emptyManager [] True = (None, emptyManager, None)"
proof (intro conjI)
  have a: "isValidPrimitiveAttributes exampleEnv ''cubeSolid''"
    by (simp add: isValidPrimitiveAttributes_def exampleEnv_def)
  have b: "isValidPrimitiveAttributes emptyHandleEnv ''cubeSolid''"
    by (simp add: isValidPrimitiveAttributes_def emptyHandleEnv_def exampleEnv_def)
  have c: "isValidPrimitiveAttributes emptyHandleEnv []"
    by (simp add: isValidPrimitiveAttributes_def emptyHandleEnv_def)
  have s1: "\<not> True \<or> ''cubeSolid'' \<noteq> []"
    by simp
  have s2: "\<not> False \<or> ([] :: string) \<noteq> []"
    by simp
  have s3: "True \<and> ([] :: string) = []"
    by simp
  show "\<exists>t mgr' msg. createObject exampleEnv emptyManager ''cubeSolid'' True = (Some t, mgr', msg)
           \<and> margin t = 0 \<and> scale t = (1 / 10, 1 / 10, 1 / 10)
           \<and> renderAssetType t = PRIMITIVE \<and> collisionAssetType t = PRIMITIVE
           \<and> \<not> useMeshCollision t"
    by (rule createObject_primitive [OF a, where reg = True and mgr = emptyManager,
          THEN conjunct1, THEN mp, OF s1])
  show "\<exists>t mgr' msg. createObject emptyHandleEnv emptyManager ''cubeSolid'' True = (Some t, mgr', msg)
           \<and> margin t = 0 \<and> scale t = (1 / 10, 1 / 10, 1 / 10)
           \<and> renderAssetType t = PRIMITIVE \<and> collisionAssetType t = PRIMITIVE
           \<and> \<not> useMeshCollision t"
    by (rule createObject_primitive [OF b, where reg = True and mgr = emptyManager,
          THEN conjunct1, THEN mp, OF s1])
  show "\<exists>t mgr' msg. createObject emptyHandleEnv emptyManager [] False = (Some t, mgr', msg)
           \<and> margin t = 0 \<and> scale t = (1 / 10, 1 / 10, 1 / 10)
           \<and> renderAssetType t = PRIMITIVE \<and> collisionAssetType t = PRIMITIVE
           \<and> \<not> useMeshCollision t"
    by (rule createObject_primitive [OF c, where reg = False and mgr = emptyManager,
          THEN conjunct1, THEN mp, OF s2])
  show "createObject emptyHandleEnv emptyManager [] True = (None, emptyManager, None)"
    by (rule createObject_primitive [OF c, where reg = True and mgr = emptyManager,
          THEN conjunct2, THEN mp, OF s3])
qed

text \<open>
  With a primitive defined under the empty handle and \<^verbatim>\<open>registerTemplate\<close> set, the
  handle resolves to an existing primitive and yet no template is returned.
\<close>

theorem createObject_primitive_empty_handle_counterexample:
  "isValidPrimitiveAttributes emptyHandleEnv []
   \<and> fst (createObject emptyHandleEnv emptyManager [] True) = None"
proof (intro conjI)
  show "isValidPrimitiveAttributes emptyHandleEnv []"
    by code_simp
  show "fst (createObject emptyHandleEnv emptyManager [] True) = None"
    by code_simp
qed





subsection \<open>The canonical configuration filename\<close>

lemma find_str_sublist: "(find_str s pat \<noteq> None) = sublist pat s"
  by (induction s) (auto simp add: sublist_Cons_right)

lemma endsWith_suffix: "endsWith s suf = suffix suf s"
proof
  assume e: "endsWith s suf"
  have "s = take (length s - length suf) s @ drop (length s - length suf) s"
    by simp
  with e have "s = take (length s - length suf) s @ suf"
    by (simp add: endsWith_def)
  then show "suffix suf s"
    by (rule suffixI)
next
  assume "suffix suf s"
  then obtain zs where "s = zs @ suf"
    by (auto simp add: suffix_def)
  then show "endsWith s suf"
    by (simp add: endsWith_def)
qed

lemma carries_suffix_contains:
  assumes "endsWith s (''.'' @ JSONTypeExt)"
  shows "find_str s JSONTypeExt \<noteq> None"
proof -
  from assms have "suffix (''.'' @ JSONTypeExt) s"
    by (simp only: endsWith_suffix)
  then have "suffix JSONTypeExt s"
    by (rule suffix_appendD)
  then have "sublist JSONTypeExt s"
    by (rule suffix_imp_sublist)
  then show ?thesis
    by (simp only: find_str_sublist)
qed

text \<open>
  C3. The canonical configuration filename that \<^verbatim>\<open>createObject\<close> computes for a
  handle: the handle itself whenever the lowercased handle contains the text
  \<^verbatim>\<open>phys_properties.json\<close> anywhere, and otherwise what \<^verbatim>\<open>io::changeExtension\<close> makes of
  the handle and that text. So a handle that carries the suffix
  \<^verbatim>\<open>.phys_properties.json\<close> in any letter case is left unchanged; and where
  \<^verbatim>\<open>io::changeExtension\<close> appends a dot and the extension, a handle that does not contain
  the text gets \<^verbatim>\<open>.phys_properties.json\<close> appended.
\<close>

theorem jsonAttrFileName_contains:
  "jsonAttrFileName env h =
     (if sublist ''phys_properties.json'' (lowercase h) then h
      else changeExtension env h ''phys_properties.json'')
   \<and> (endsWith (lowercase h) ''.phys_properties.json'' \<longrightarrow> jsonAttrFileName env h = h)
   \<and> ((\<forall>f e. changeExtension env f e = f @ ''.'' @ e)
        \<and> \<not> sublist ''phys_properties.json'' (lowercase h)
      \<longrightarrow> jsonAttrFileName env h = h @ ''.phys_properties.json'')"
proof (intro conjI impI)
  show eq: "jsonAttrFileName env h =
     (if sublist ''phys_properties.json'' (lowercase h) then h
      else changeExtension env h ''phys_properties.json'')"
    using find_str_sublist [of "lowercase h" JSONTypeExt]
    by (simp add: jsonAttrFileName_def JSONTypeExt_def Let_def)
  show "jsonAttrFileName env h = h" if "endsWith (lowercase h) ''.phys_properties.json''"
    using that carries_suffix_contains [of "lowercase h"]
    by (simp add: jsonAttrFileName_def JSONTypeExt_def Let_def)
  show "jsonAttrFileName env h = h @ ''.phys_properties.json''"
    if "(\<forall>f e. changeExtension env f e = f @ ''.'' @ e)
        \<and> \<not> sublist ''phys_properties.json'' (lowercase h)"
    using that eq by simp
qed

theorem jsonAttrFileName_contains_witness:
  "jsonAttrFileName exampleEnv ''Chair.PHYS_Properties.JSON'' = ''Chair.PHYS_Properties.JSON''
   \<and> jsonAttrFileName exampleEnv ''chair'' = ''chair.phys_properties.json''"
proof -
  have a: "endsWith (lowercase ''Chair.PHYS_Properties.JSON'') ''.phys_properties.json''"
    by code_simp
  have b: "\<forall>f e. changeExtension exampleEnv f e = f @ ''.'' @ e"
    by (simp add: exampleEnv_def)
  have "find_str (lowercase ''chair'') ''phys_properties.json'' = None"
    by code_simp
  then have c: "\<not> sublist ''phys_properties.json'' (lowercase ''chair'')"
    using find_str_sublist [of "lowercase ''chair''" "''phys_properties.json''"] by simp
  have w1: "jsonAttrFileName exampleEnv ''Chair.PHYS_Properties.JSON''
              = ''Chair.PHYS_Properties.JSON''"
    by (rule jsonAttrFileName_contains [of exampleEnv "''Chair.PHYS_Properties.JSON''",
          THEN conjunct2, THEN conjunct1, THEN mp, OF a])
  have "jsonAttrFileName exampleEnv ''chair'' = ''chair'' @ ''.phys_properties.json''"
    by (rule jsonAttrFileName_contains [of exampleEnv "''chair''",
          THEN conjunct2, THEN conjunct2, THEN mp, OF conjI [OF b c]])
  then have w2: "jsonAttrFileName exampleEnv ''chair'' = ''chair.phys_properties.json''"
    by simp
  from w1 w2 show ?thesis
    by (rule conjI)
qed

text \<open>
  The test is for containment, not for the suffix: \<^verbatim>\<open>a.phys_properties.json.bak\<close> does
  not end with \<^verbatim>\<open>.phys_properties.json\<close>, and yet nothing is appended to it.
\<close>

theorem jsonAttrFileName_suffix_counterexample:
  "\<not> isValidPrimitiveAttributes exampleEnv ''a.phys_properties.json.bak''
   \<and> \<not> endsWith (lowercase ''a.phys_properties.json.bak'') ''.phys_properties.json''
   \<and> jsonAttrFileName exampleEnv ''a.phys_properties.json.bak''
       \<noteq> ''a.phys_properties.json.bak'' @ ''.phys_properties.json''
   \<and> jsonAttrFileName exampleEnv ''a.phys_properties.json.bak'' = ''a.phys_properties.json.bak''"
proof (intro conjI)
  show "\<not> isValidPrimitiveAttributes exampleEnv ''a.phys_properties.json.bak''"
    by code_simp
  show "\<not> endsWith (lowercase ''a.phys_properties.json.bak'') ''.phys_properties.json''"
    by code_simp
  show "jsonAttrFileName exampleEnv ''a.phys_properties.json.bak''
       \<noteq> ''a.phys_properties.json.bak'' @ ''.phys_properties.json''"
    by code_simp
  show "jsonAttrFileName exampleEnv ''a.phys_properties.json.bak'' = ''a.phys_properties.json.bak''"
    by code_simp
qed

subsection \<open>Templates from configuration documents: the centre of mass\<close>

text \<open>
  C8. For every configuration document, the template that \<^verbatim>\<open>loadFromJSONDoc\<close> builds
  has \<^verbatim>\<open>computeCOMFromShape\<close> false exactly when the document has a \<^verbatim>\<open>COM\<close> field,
  whatever its value; the centre of mass and the mass are the document's when it gives
  them and otherwise those of the freshly built template. The document with mass 2.5 and
  \<^verbatim>\<open>COM\<close> (0, 0, 0) gives mass 2.5, centre of mass (0, 0, 0) and the flag false; the
  same document without \<^verbatim>\<open>COM\<close> gives the flag true and leaves the centre of mass as
  built.
\<close>

theorem loadFromJSONDoc_COM:
  "computeCOMFromShape (loadFromJSONDoc env templateName doc) = (json_COM doc = None)
   \<and> COM (loadFromJSONDoc env templateName doc)
       = (case json_COM doc of
            Some c \<Rightarrow> c
          | None \<Rightarrow> COM (createObjectAttributesFromJson env templateName doc))
   \<and> mass (loadFromJSONDoc env templateName doc)
       = (case json_mass doc of
            Some m \<Rightarrow> m
          | None \<Rightarrow> mass (createObjectAttributesFromJson env templateName doc))
   \<and> mass (loadFromJSONDoc env templateName exampleDocument) = 5 / 2
   \<and> COM (loadFromJSONDoc env templateName exampleDocument) = (0, 0, 0)
   \<and> \<not> computeCOMFromShape (loadFromJSONDoc env templateName exampleDocument)
   \<and> computeCOMFromShape
       (loadFromJSONDoc env templateName (exampleDocument\<lparr>json_COM := None\<rparr>))
   \<and> COM (loadFromJSONDoc env templateName (exampleDocument\<lparr>json_COM := None\<rparr>))
       = COM (createObjectAttributesFromJson env templateName
                (exampleDocument\<lparr>json_COM := None\<rparr>))"
proof -
  have general: "computeCOMFromShape (loadFromJSONDoc env templateName d) = (json_COM d = None)
   \<and> COM (loadFromJSONDoc env templateName d)
       = (case json_COM d of
            Some c \<Rightarrow> c
          | None \<Rightarrow> COM (createObjectAttributesFromJson env templateName d))
   \<and> mass (loadFromJSONDoc env templateName d)
       = (case json_mass d of
            Some m \<Rightarrow> m
          | None \<Rightarrow> mass (createObjectAttributesFromJson env templateName d))" for d
    by (simp add: loadFromJSONDoc_def jsonIntoSetter_def Let_def split: option.split)
  have ex: "json_mass exampleDocument = Some (5 / 2)" "json_COM exampleDocument = Some (0, 0, 0)"
    by (simp_all add: exampleDocument_def)
  show ?thesis
    using general [of doc] general [of exampleDocument]
      general [of "exampleDocument\<lparr>json_COM := None\<rparr>"] ex
    by simp
qed

subsection \<open>Default construction in createObject\<close>

lemma initNewObjectInternal_existingPaths:
  "initNewObjectInternal (env\<lparr>existingPaths := X\<rparr>) h = initNewObjectInternal env h"
  by (simp add: initNewObjectInternal_def setDefaultAssetNameBasedAttributes_def
        setRenderAssetHandle_def setCollisionAssetHandle_def setFileDirectoryFromHandle_def
        isValidPrimitiveAttributes_def Let_def)

lemma createObject_default:
  assumes "\<not> isValidPrimitiveAttributes env h"
    and "\<not> isValidFileName env (jsonAttrFileName env h)"
  shows "createObject env mgr h reg =
     (fst (createDefaultObject env mgr h reg), snd (createDefaultObject env mgr h reg),
      if fst (createDefaultObject env mgr h reg) \<noteq> None
      then Some ((if isValidFileName env h then ''File ('' @ h @ '') Based''
                  else ''New default ('' @ h @ '')'')
                 @ '' object attributes created''
                 @ (if reg then '' and registered.'' else ''.''))
      else None)"
  using assms by (simp add: createObject_def Let_def split: prod.split)

lemma addObjectToLibrary_committed:
  assumes "addObjectToLibrary mgr t h = (i, t', mgr')"
  shows "0 \<le> i \<and> objectLibrary mgr' (nat i) = Some (h, t')"
  using assms by (auto simp add: addObjectToLibrary_def Let_def split: option.splits)

lemma commitTemplate_committed:
  assumes "commitTemplate mgr b t h = (i, t', mgr')"
  shows "objectLibrary mgr' (nat i) = Some (h, t')"
proof -
  obtain j u m where a: "addObjectToLibrary mgr (t\<lparr>isDirty := False\<rparr>) h = (j, u, m)"
    by (cases "addObjectToLibrary mgr (t\<lparr>isDirty := False\<rparr>) h") auto
  from assms a have e: "i = j" "t' = u"
    by (simp_all add: commitTemplate_def)
  from assms a have "objectLibrary mgr' = objectLibrary m"
    by (cases b) (auto simp add: commitTemplate_def)
  with addObjectToLibrary_committed [OF a] e show ?thesis
    by simp
qed

lemma createDefaultObject_registered:
  assumes "\<not> isValidPrimitiveAttributes env h"
  shows "if h \<noteq> [] \<and> isValidFileName env h
         then (\<exists>t mgr'. createDefaultObject env mgr h True = (Some t, mgr')
                 \<and> \<not> renderAssetIsPrimitive t
                 \<and> objectLibrary mgr' (nat (ID t)) = Some (h, t))
         else createDefaultObject env mgr h True = (None, mgr)"
proof (cases "h \<noteq> [] \<and> isValidFileName env h")
  case False
  let ?t = "initNewObjectInternal env h"
  have "renderAssetHandle ?t = []
        \<or> (\<not> isValidPrimitiveAttributes env (renderAssetHandle ?t)
           \<and> \<not> isValidFileName env (renderAssetHandle ?t))"
    using False assms by (auto simp add: initNewObjectInternal_handles)
  then have "registerObjectFinalize env mgr ?t (handle ?t) = (ID_UNDEFINED, ?t, mgr)"
    by (simp add: registerObjectFinalize_result)
  with False show ?thesis
    by (simp add: createDefaultObject_def postCreateRegister_def)
next
  case True
  let ?t = "initNewObjectInternal env h"
  let ?u = "classifyCollisionAsset env h h (?t\<lparr>renderAssetIsPrimitive := False\<rparr>)"
  have r: "registerObjectFinalize env mgr ?t (handle ?t) = commitTemplate mgr False ?u h"
    using True assms by (simp add: registerObjectFinalize_result initNewObjectInternal_handles)
  obtain i t' mgr' where c: "commitTemplate mgr False ?u h = (i, t', mgr')"
    by (cases "commitTemplate mgr False ?u h") auto
  have d: "i \<noteq> ID_UNDEFINED"
    using commitTemplate_defined [of mgr False ?u h] c by simp
  from commitTemplate_keeps [OF c] have k: "t' = ?u\<lparr>isDirty := False, ID := i\<rparr>"
    by simp
  have "\<not> renderAssetIsPrimitive ?u"
    using classifyCollisionAsset_render [of env h h "?t\<lparr>renderAssetIsPrimitive := False\<rparr>"]
    by simp
  with k have p: "\<not> renderAssetIsPrimitive t'" "ID t' = i"
    by simp_all
  from commitTemplate_committed [OF c] p have "objectLibrary mgr' (nat (ID t')) = Some (h, t')"
    by simp
  moreover have "createDefaultObject env mgr h True = (Some t', mgr')"
    using r c d by (simp add: createDefaultObject_def postCreateRegister_def)
  ultimately show ?thesis
    using True p by simp
qed

text \<open>
  C10. For a handle that is no valid primitive and whose canonical configuration file
  does not exist, \<^verbatim>\<open>createObject\<close> hands the handle to the one default construction
  (\<^verbatim>\<open>createDefaultObject\<close>: \<^verbatim>\<open>initNewObjectInternal\<close>, then registration on request)
  whether or not the raw handle names an existing file; its own test of the raw file
  chooses the log line only, and \<^verbatim>\<open>initNewObjectInternal\<close> does not read the file
  system. Without registration the returned template and the manager are therefore the
  same in both cases. With registration they are not: the render asset handle of the
  default template is the raw handle, so \<^verbatim>\<open>registerObjectFinalize\<close> registers the
  template as file-rendered and it is returned when the raw file exists, and otherwise
  \<^verbatim>\<open>createObject\<close> returns null, logs nothing and leaves the manager as it was.
\<close>

theorem createObject_default_construction:
  assumes "\<not> isValidPrimitiveAttributes env h"
    and "\<not> isValidFileName env (jsonAttrFileName env h)"
  shows "(fst (createObject env mgr h reg), fst (snd (createObject env mgr h reg)))
           = postCreateRegister env mgr (initNewObjectInternal env h) reg
   \<and> initNewObjectInternal (env\<lparr>existingPaths := X\<rparr>) h = initNewObjectInternal env h
   \<and> createObject env mgr h False =
       (Some (initNewObjectInternal env h), mgr,
        Some ((if isValidFileName env h then ''File ('' @ h @ '') Based''
               else ''New default ('' @ h @ '')'') @ '' object attributes created.''))
   \<and> (if h \<noteq> [] \<and> isValidFileName env h
       then (\<exists>t mgr' msg. createObject env mgr h True = (Some t, mgr', Some msg)
               \<and> \<not> renderAssetIsPrimitive t
               \<and> objectLibrary mgr' (nat (ID t)) = Some (h, t))
       else createObject env mgr h True = (None, mgr, None))"
proof (intro conjI)
  note c = createObject_default [OF assms]
  show "(fst (createObject env mgr h reg), fst (snd (createObject env mgr h reg)))
           = postCreateRegister env mgr (initNewObjectInternal env h) reg"
    by (simp add: c [of mgr reg] createDefaultObject_def)
  show "initNewObjectInternal (env\<lparr>existingPaths := X\<rparr>) h = initNewObjectInternal env h"
    by (rule initNewObjectInternal_existingPaths)
  show "createObject env mgr h False =
       (Some (initNewObjectInternal env h), mgr,
        Some ((if isValidFileName env h then ''File ('' @ h @ '') Based''
               else ''New default ('' @ h @ '')'') @ '' object attributes created.''))"
    by (simp add: c [of mgr False] createDefaultObject_def postCreateRegister_def)
  show "if h \<noteq> [] \<and> isValidFileName env h
       then (\<exists>t mgr' msg. createObject env mgr h True = (Some t, mgr', Some msg)
               \<and> \<not> renderAssetIsPrimitive t
               \<and> objectLibrary mgr' (nat (ID t)) = Some (h, t))
       else createObject env mgr h True = (None, mgr, None)"
    using createDefaultObject_registered [OF assms(1), of mgr]
    by (auto simp add: c [of mgr True])
qed


theorem createObject_default_construction_witness:
  "createObject exampleEnv emptyManager ''table.glb'' True = (None, emptyManager, None)
   \<and> (\<exists>t mgr' msg. createObject tableEnv emptyManager ''table.glb'' True = (Some t, mgr', Some msg)
         \<and> \<not> renderAssetIsPrimitive t
         \<and> objectLibrary mgr' (nat (ID t)) = Some (''table.glb'', t))"
proof -
  have a: "\<not> isValidPrimitiveAttributes exampleEnv ''table.glb''"
    by code_simp
  have b: "\<not> isValidFileName exampleEnv (jsonAttrFileName exampleEnv ''table.glb'')"
    by code_simp
  have c: "\<not> isValidPrimitiveAttributes tableEnv ''table.glb''"
    by code_simp
  have d: "\<not> isValidFileName tableEnv (jsonAttrFileName tableEnv ''table.glb'')"
    by code_simp
  have e: "\<not> isValidFileName exampleEnv ''table.glb''"
    by code_simp
  have f: "''table.glb'' \<noteq> [] \<and> isValidFileName tableEnv ''table.glb''"
    by code_simp
  from createObject_default_construction [OF a b, of emptyManager] e
  have "createObject exampleEnv emptyManager ''table.glb'' True = (None, emptyManager, None)"
    by simp
  moreover from createObject_default_construction [OF c d, of emptyManager] f
  have "\<exists>t mgr' msg. createObject tableEnv emptyManager ''table.glb'' True = (Some t, mgr', Some msg)
         \<and> \<not> renderAssetIsPrimitive t
         \<and> objectLibrary mgr' (nat (ID t)) = Some (''table.glb'', t)"
    by simp
  ultimately show ?thesis
    by (rule conjI)
qed

text \<open>
  Two installations that differ only in whether \<^verbatim>\<open>table.glb\<close> exists: with
  registration, one call returns null and registers nothing, the other returns a
  template and consumes id 0.
\<close>

theorem createObject_raw_file_counterexample:
  "\<not> isValidPrimitiveAttributes exampleEnv ''table.glb''
   \<and> \<not> isValidFileName exampleEnv (jsonAttrFileName exampleEnv ''table.glb'')
   \<and> \<not> isValidPrimitiveAttributes tableEnv ''table.glb''
   \<and> \<not> isValidFileName tableEnv (jsonAttrFileName tableEnv ''table.glb'')
   \<and> \<not> isValidFileName exampleEnv ''table.glb''
   \<and> isValidFileName tableEnv ''table.glb''
   \<and> fst (createObject exampleEnv emptyManager ''table.glb'' True) = None
   \<and> nextID (fst (snd (createObject exampleEnv emptyManager ''table.glb'' True))) = 0
   \<and> fst (createObject tableEnv emptyManager ''table.glb'' True) \<noteq> None
   \<and> nextID (fst (snd (createObject tableEnv emptyManager ''table.glb'' True))) = 1"
proof (intro conjI)
  show "\<not> isValidPrimitiveAttributes exampleEnv ''table.glb''"
    by code_simp
  show "\<not> isValidFileName exampleEnv (jsonAttrFileName exampleEnv ''table.glb'')"
    by code_simp
  show "\<not> isValidPrimitiveAttributes tableEnv ''table.glb''"
    by code_simp
  show "\<not> isValidFileName tableEnv (jsonAttrFileName tableEnv ''table.glb'')"
    by code_simp
  show "\<not> isValidFileName exampleEnv ''table.glb''"
    by code_simp
  show "isValidFileName tableEnv ''table.glb''"
    by code_simp
  show "fst (createObject exampleEnv emptyManager ''table.glb'' True) = None"
    by code_simp
  show "nextID (fst (snd (createObject exampleEnv emptyManager ''table.glb'' True))) = 0"
    by code_simp
  show "fst (createObject tableEnv emptyManager ''table.glb'' True) \<noteq> None"
    by code_simp
  show "nextID (fst (snd (createObject tableEnv emptyManager ''table.glb'' True))) = 1"
    by code_simp
qed

subsection \<open>Batch loading: discovery and the null template\<close>

lemma Directory_list_sorted:
  "sorted (Directory_list env path)
   \<and> set (Directory_list env path) = set (directoryEntries env path)
   \<and> length (Directory_list env path) = length (directoryEntries env path)"
  by (simp add: Directory_list_def)

text \<open>
  C7. \<^verbatim>\<open>loadObjectConfigs\<close>: the candidate file is the path itself when it ends with
  \<^verbatim>\<open>.phys_properties.json\<close> and the path with that suffix appended otherwise. When the
  path is no directory and the candidate does not exist, the result is the empty
  sequence and the manager is untouched. Otherwise the files handed to
  \<^verbatim>\<open>loadAllFileBasedTemplates\<close> are the candidate, when it exists, followed, when the
  path is a directory, by the joined paths of those entries of the sorted listing whose
  joined path ends with the suffix, in the order of the listing and with no entry
  dropped as a duplicate; the listing is the directory's entries in ascending order.
\<close>

theorem loadObjectConfigs_discovery:
  "objPhysPropertiesFilename path =
     (if suffix ''.phys_properties.json'' path then path else path @ ''.phys_properties.json'')
   \<and> (path \<notin> directories env \<and> objPhysPropertiesFilename path \<notin> existingPaths env
        \<longrightarrow> loadObjectConfigs env mgr path saveAsDefaults = Inr ([], mgr))
   \<and> (path \<in> directories env \<or> objPhysPropertiesFilename path \<in> existingPaths env
        \<longrightarrow> loadObjectConfigs env mgr path saveAsDefaults =
            loadAllFileBasedTemplates env mgr
              ((if objPhysPropertiesFilename path \<in> existingPaths env
                then [objPhysPropertiesFilename path] else [])
               @ (if path \<in> directories env
                  then map (Directory_join path)
                         (filter (\<lambda>file. suffix ''.phys_properties.json'' (Directory_join path file))
                            (Directory_list env path))
                  else []))
              saveAsDefaults)
   \<and> sorted (filter (\<lambda>file. suffix ''.phys_properties.json'' (Directory_join path file))
               (Directory_list env path))
   \<and> set (Directory_list env path) = set (directoryEntries env path)"
proof (intro conjI impI)
  show "objPhysPropertiesFilename path =
     (if suffix ''.phys_properties.json'' path then path else path @ ''.phys_properties.json'')"
    by (simp add: objPhysPropertiesFilename_def endsWith_suffix)
  show "loadObjectConfigs env mgr path saveAsDefaults = Inr ([], mgr)"
    if "path \<notin> directories env \<and> objPhysPropertiesFilename path \<notin> existingPaths env"
    using that by (simp add: loadObjectConfigs_def)
  have agg: "aggregatedPaths env path =
       (if objPhysPropertiesFilename path \<in> existingPaths env
                then [objPhysPropertiesFilename path] else [])
               @ (if path \<in> directories env
                  then map (Directory_join path)
                         (filter (\<lambda>file. suffix ''.phys_properties.json'' (Directory_join path file))
                            (Directory_list env path))
                  else [])"
    by (simp add: aggregatedPaths_def endsWith_suffix filter_map comp_def)
  show "loadObjectConfigs env mgr path saveAsDefaults =
            loadAllFileBasedTemplates env mgr
              ((if objPhysPropertiesFilename path \<in> existingPaths env
                then [objPhysPropertiesFilename path] else [])
               @ (if path \<in> directories env
                  then map (Directory_join path)
                         (filter (\<lambda>file. suffix ''.phys_properties.json'' (Directory_join path file))
                            (Directory_list env path))
                  else []))
              saveAsDefaults"
    if "path \<in> directories env \<or> objPhysPropertiesFilename path \<in> existingPaths env"
    using that agg by (auto simp add: loadObjectConfigs_def Let_def)
  show "sorted (filter (\<lambda>file. suffix ''.phys_properties.json'' (Directory_join path file))
               (Directory_list env path))"
    using Directory_list_sorted [of env path] by (simp add: sorted_wrt_filter)
  show "set (Directory_list env path) = set (directoryEntries env path)"
    by (simp add: Directory_list_def)
qed


theorem loadObjectConfigs_discovery_witness:
  "loadObjectConfigs exampleEnv emptyManager ''nowhere'' False = Inr ([], emptyManager)
   \<and> loadObjectConfigs exampleEnv emptyManager ''objects'' False =
       loadAllFileBasedTemplates exampleEnv emptyManager
         [''objects/a.phys_properties.json'', ''objects/b.phys_properties.json''] False
   \<and> loadObjectConfigs exampleEnv emptyManager ''chair'' False =
       loadAllFileBasedTemplates exampleEnv emptyManager [''chair.phys_properties.json''] False"
proof -
  note d = loadObjectConfigs_discovery [of _ exampleEnv emptyManager False]
  have n: "''nowhere'' \<notin> directories exampleEnv
           \<and> objPhysPropertiesFilename ''nowhere'' \<notin> existingPaths exampleEnv"
    by code_simp
  have o: "''objects'' \<in> directories exampleEnv
           \<or> objPhysPropertiesFilename ''objects'' \<in> existingPaths exampleEnv"
    by code_simp
  have ol: "(if objPhysPropertiesFilename ''objects'' \<in> existingPaths exampleEnv
                then [objPhysPropertiesFilename ''objects''] else [])
               @ (if ''objects'' \<in> directories exampleEnv
                  then map (Directory_join ''objects'')
                         (filter (\<lambda>file. suffix ''.phys_properties.json''
                                     (Directory_join ''objects'' file))
                            (Directory_list exampleEnv ''objects''))
                  else [])
            = [''objects/a.phys_properties.json'', ''objects/b.phys_properties.json'']"
    by code_simp
  have c: "''chair'' \<in> directories exampleEnv
           \<or> objPhysPropertiesFilename ''chair'' \<in> existingPaths exampleEnv"
    by code_simp
  have cl: "(if objPhysPropertiesFilename ''chair'' \<in> existingPaths exampleEnv
                then [objPhysPropertiesFilename ''chair''] else [])
               @ (if ''chair'' \<in> directories exampleEnv
                  then map (Directory_join ''chair'')
                         (filter (\<lambda>file. suffix ''.phys_properties.json''
                                     (Directory_join ''chair'' file))
                            (Directory_list exampleEnv ''chair''))
                  else [])
            = [''chair.phys_properties.json'']"
    by code_simp
  have w1: "loadObjectConfigs exampleEnv emptyManager ''nowhere'' False = Inr ([], emptyManager)"
    by (rule d [of "''nowhere''", THEN conjunct2, THEN conjunct1, THEN mp, OF n])
  have w2: "loadObjectConfigs exampleEnv emptyManager ''objects'' False =
       loadAllFileBasedTemplates exampleEnv emptyManager
         [''objects/a.phys_properties.json'', ''objects/b.phys_properties.json''] False"
    using d [of "''objects''", THEN conjunct2, THEN conjunct2, THEN conjunct1, THEN mp, OF o]
    by (simp only: ol)
  have w3: "loadObjectConfigs exampleEnv emptyManager ''chair'' False =
       loadAllFileBasedTemplates exampleEnv emptyManager [''chair.phys_properties.json''] False"
    using d [of "''chair''", THEN conjunct2, THEN conjunct2, THEN conjunct1, THEN mp, OF c]
    by (simp only: cl)
  from w1 w2 w3 show ?thesis
    by (intro conjI)
qed

lemma registerObjectFinalize_ID:
  assumes "registerObjectFinalize env mgr t h = (i, t', mgr')" and "i \<noteq> ID_UNDEFINED"
  shows "ID t' = i"
proof -
  let ?p = "isValidPrimitiveAttributes env (renderAssetHandle t)"
  let ?u = "classifyCollisionAsset env (renderAssetHandle t) (collisionAssetHandle t)
              (t\<lparr>renderAssetIsPrimitive := ?p\<rparr>)"
  have "\<not> (renderAssetHandle t = []
        \<or> (\<not> isValidPrimitiveAttributes env (renderAssetHandle t)
           \<and> \<not> isValidFileName env (renderAssetHandle t)))"
    using assms registerObjectFinalize_undefined_iff [of env mgr t h] by auto
  then have "registerObjectFinalize env mgr t h = commitTemplate mgr ?p ?u h"
    by (auto simp add: registerObjectFinalize_result)
  with assms(1) have "commitTemplate mgr ?p ?u h = (i, t', mgr')"
    by simp
  from commitTemplate_keeps [OF this] show ?thesis
    by simp
qed

lemma createObjectFromFile_registered_ID:
  assumes "createObjectFromFile env mgr f True = (Some t, mgr')"
  shows "ID t \<noteq> ID_UNDEFINED"
proof -
  from assms obtain doc where
    p: "postCreateRegister env mgr (loadFromJSONDoc env f doc) True = (Some t, mgr')"
    by (auto simp add: createObjectFromFile_def split: option.splits)
  let ?a = "loadFromJSONDoc env f doc"
  obtain i u m where r: "registerObjectFinalize env mgr ?a (handle ?a) = (i, u, m)"
    by (cases "registerObjectFinalize env mgr ?a (handle ?a)") auto
  with p have "i \<noteq> ID_UNDEFINED" "u = t"
    by (auto simp add: postCreateRegister_def split: if_splits)
  with registerObjectFinalize_ID [OF r] show ?thesis
    by simp
qed

lemma loadAllLoop_defined:
  assumes "loadAllLoop env fs save i res mgr = Inr (ids, mgr')"
    and "length res = length fs"
    and "\<forall>k. k < i \<and> k < length fs \<longrightarrow> res ! k \<noteq> ID_UNDEFINED"
  shows "length ids = length fs \<and> (\<forall>k < length fs. ids ! k \<noteq> ID_UNDEFINED)"
  using assms
proof (induction env fs save i res mgr rule: loadAllLoop.induct)
  case (1 env fs save i res mgr)
  show ?case
  proof (cases "i < length fs")
    case False
    with "1.prems" show ?thesis
      by (simp add: loadAllLoop.simps [of env fs save i res mgr])
  next
    case True
    from True "1.prems"(1) obtain tmplt mgr1 where
      c: "createObjectFromFile env mgr (fs ! i) True = (Some tmplt, mgr1)"
      by (auto simp add: loadAllLoop.simps [of env fs save i res mgr]
            split: prod.splits option.splits)
    let ?m = "if save then mgr1\<lparr>undeletableObjectNames :=
                          insert (handle tmplt) (undeletableObjectNames mgr1)\<rparr>
              else mgr1"
    from True "1.prems"(1) c have
      l: "loadAllLoop env fs save (Suc i) (res[i := ID tmplt]) ?m = Inr (ids, mgr')"
      by (simp add: loadAllLoop.simps [of env fs save i res mgr])
    have len: "length (res[i := ID tmplt]) = length fs"
      using "1.prems"(2) by simp
    have inv: "\<forall>k. k < Suc i \<and> k < length fs \<longrightarrow> res[i := ID tmplt] ! k \<noteq> ID_UNDEFINED"
      using "1.prems"(2,3) createObjectFromFile_registered_ID [OF c]
      by (auto simp add: nth_list_update less_Suc_eq)
    from "1.IH" [OF True c [symmetric] refl l len inv] show ?thesis .
  qed
qed

lemma loadAllFileBasedTemplates_defined:
  assumes "loadAllFileBasedTemplates env mgr fs save = Inr (ids, mgr')"
  shows "length ids = length fs \<and> ID_UNDEFINED \<notin> set ids"
proof -
  from assms have
    "loadAllLoop env fs save 0 (replicate (length fs) ID_UNDEFINED) mgr = Inr (ids, mgr')"
    by (simp add: loadAllFileBasedTemplates_def)
  from loadAllLoop_defined [OF this] show ?thesis
    by (auto simp add: in_set_conv_nth)
qed

text \<open>
  C4. Where \<^verbatim>\<open>createObjectFromFile\<close> returns null for a file, here the first of two
  files, whose render asset does not exist, \<^verbatim>\<open>loadAllFileBasedTemplates\<close> dereferences
  the null template at line 304 instead of leaving the sentinel in that slot and going on
  to the second file; so does \<^verbatim>\<open>loadObjectConfigs\<close> on the directory holding them.
  (Whenever the loader does return, the sequence has one defined id per filename:
  \<open>loadAllFileBasedTemplates_defined\<close>.)
\<close>

theorem loadAllFileBasedTemplates_null_template:
  "fst (createObjectFromFile exampleEnv emptyManager ''objects/a.phys_properties.json'' True) = None
   \<and> loadAllFileBasedTemplates exampleEnv emptyManager
        [''objects/a.phys_properties.json'', ''objects/b.phys_properties.json''] False
       = Inl NullPointerDereference
   \<and> loadObjectConfigs exampleEnv emptyManager ''objects'' False = Inl NullPointerDereference"
proof (intro conjI)
  have only: "x = Inl NullPointerDereference" if "isl x"
    for x :: "fault + int list \<times> ObjectAttributesManager"
  proof -
    from that obtain f where "x = Inl f"
      by (cases x) auto
    then show ?thesis
      by (cases f) simp
  qed
  show "fst (createObjectFromFile exampleEnv emptyManager ''objects/a.phys_properties.json'' True)
          = None"
    by code_simp
  have "isl (loadAllFileBasedTemplates exampleEnv emptyManager
        [''objects/a.phys_properties.json'', ''objects/b.phys_properties.json''] False)"
    by code_simp
  then show "loadAllFileBasedTemplates exampleEnv emptyManager
        [''objects/a.phys_properties.json'', ''objects/b.phys_properties.json''] False
       = Inl NullPointerDereference"
    by (rule only)
  have "isl (loadObjectConfigs exampleEnv emptyManager ''objects'' False)"
    by code_simp
  then show "loadObjectConfigs exampleEnv emptyManager ''objects'' False
               = Inl NullPointerDereference"
    by (rule only)
qed

end
